theory Spec2Isabelle
  imports Main "HOL-Library.AList"
begin

section \<open>trytravis: the configuration command and the transient-branch workflow\<close>

text \<open>
  A shallow embedding of \<^verbatim>\<open>trytravis.py\<close>: the class \<^verbatim>\<open>TryTravis\<close> with its methods
  \<^verbatim>\<open>start\<close>, \<^verbatim>\<open>_load_trytravis_github_slug\<close>, \<^verbatim>\<open>_submit_project_to_github\<close>,
  \<^verbatim>\<open>_wait_for_travis_build\<close>, \<^verbatim>\<open>_watch_travis_build\<close>, and the entry point \<^verbatim>\<open>main\<close>.
  The program is modelled as it runs under Python 3 (where \<^verbatim>\<open>user_input\<close> is \<^verbatim>\<open>input\<close>).
  Python identifiers starting with an underscore lose it. Exceptions are values of the
  type \<open>exn\<close>; a method returns \<open>exn + 'a\<close> together with the state it leaves behind.
\<close>

subsection \<open>Exceptions\<close>

text \<open>
  The exceptions the program raises or lets through. \<^verbatim>\<open>NotImplementedError\<close> is a subclass
  of \<^verbatim>\<open>RuntimeError\<close> in Python, so the clause \<^verbatim>\<open>except RuntimeError\<close> of \<^verbatim>\<open>main\<close> catches
  both; git's errors, \<^verbatim>\<open>TypeError\<close>, \<^verbatim>\<open>UnboundLocalError\<close> and \<^verbatim>\<open>EOFError\<close> are not.
\<close>

datatype exn =
    RuntimeError string
  | NotImplementedError
  | GitCommandError string
  | InvalidGitRepositoryError
  | TypeError
  | UnboundLocalError string
  | EOFError

fun is_RuntimeError :: "exn \<Rightarrow> bool" where
  "is_RuntimeError (RuntimeError m) = True"
| "is_RuntimeError NotImplementedError = True"
| "is_RuntimeError e = False"

fun str_exn :: "exn \<Rightarrow> string" where
  "str_exn (RuntimeError m) = m"
| "str_exn e = []"

subsection \<open>Python string operations\<close>

text \<open>
  Strings are Python 3 strings whose code points are below 256; a \<open>char\<close> is such a
  code point (strings with code points from 256 on are outside the model).

  \<^verbatim>\<open>str.strip()\<close> removes leading and trailing whitespace. Below 256, Python 3 counts
  as whitespace the code points 0x09 to 0x0D, 0x1C to 0x1F, the space 0x20, the next-line
  control 0x85 and the no-break space 0xA0.
\<close>

definition isspace :: "char \<Rightarrow> bool" where
  "isspace c = (c \<in> set [CHR 0x09, CHR 0x0A, CHR 0x0B, CHR 0x0C, CHR 0x0D,
                          CHR 0x1C, CHR 0x1D, CHR 0x1E, CHR 0x1F, CHR '' '',
                          CHR 0x85, CHR 0xA0])"

definition strip :: "string \<Rightarrow> string" where
  "strip s = rev (dropWhile isspace (rev (dropWhile isspace s)))"

text \<open>
  \<^verbatim>\<open>str.lower()\<close> maps \<^verbatim>\<open>A..Z\<close> to \<^verbatim>\<open>a..z\<close> and the capital letters 0xC0 to 0xDE
  (all but the multiplication sign 0xD7) to the letters 0x20 above them; every other
  code point below 256 stays.
\<close>

definition upper_letters :: string where
  "upper_letters = ''ABCDEFGHIJKLMNOPQRSTUVWXYZ'' @
     [CHR 0xC0, CHR 0xC1, CHR 0xC2, CHR 0xC3, CHR 0xC4, CHR 0xC5,
      CHR 0xC6, CHR 0xC7, CHR 0xC8, CHR 0xC9, CHR 0xCA, CHR 0xCB,
      CHR 0xCC, CHR 0xCD, CHR 0xCE, CHR 0xCF, CHR 0xD0, CHR 0xD1,
      CHR 0xD2, CHR 0xD3, CHR 0xD4, CHR 0xD5, CHR 0xD6, CHR 0xD8,
      CHR 0xD9, CHR 0xDA, CHR 0xDB, CHR 0xDC, CHR 0xDD, CHR 0xDE]"

definition lower_letters :: string where
  "lower_letters = ''abcdefghijklmnopqrstuvwxyz'' @
     [CHR 0xE0, CHR 0xE1, CHR 0xE2, CHR 0xE3, CHR 0xE4, CHR 0xE5,
      CHR 0xE6, CHR 0xE7, CHR 0xE8, CHR 0xE9, CHR 0xEA, CHR 0xEB,
      CHR 0xEC, CHR 0xED, CHR 0xEE, CHR 0xEF, CHR 0xF0, CHR 0xF1,
      CHR 0xF2, CHR 0xF3, CHR 0xF4, CHR 0xF5, CHR 0xF6, CHR 0xF8,
      CHR 0xF9, CHR 0xFA, CHR 0xFB, CHR 0xFC, CHR 0xFD, CHR 0xFE]"

definition lower_char :: "char \<Rightarrow> char" where
  "lower_char c =
     (case map_of (zip upper_letters lower_letters) c of
        Some d \<Rightarrow> d
      | None \<Rightarrow> c)"

definition lower :: "string \<Rightarrow> string" where
  "lower s = map lower_char s"

text \<open>
  Files are opened in text mode with the default \<^verbatim>\<open>newline=None\<close>. Reading translates
  every \<^verbatim>\<open>\r\n\<close> and every remaining \<^verbatim>\<open>\r\<close> to \<^verbatim>\<open>\n\<close>; writing translates every \<^verbatim>\<open>\n\<close>
  to \<^verbatim>\<open>os.linesep\<close>. Encoding and decoding are taken to return the same code points.
\<close>

fun universal_newlines :: "string \<Rightarrow> string" where
  "universal_newlines [] = []"
| "universal_newlines [c] = [if c = CHR 0x0D then CHR 0x0A else c]"
| "universal_newlines (c # d # cs) =
     (if c = CHR 0x0D
      then (if d = CHR 0x0A then CHR 0x0A # universal_newlines cs
            else CHR 0x0A # universal_newlines (d # cs))
      else c # universal_newlines (d # cs))"

definition newline_on_write :: "string \<Rightarrow> string \<Rightarrow> string" where
  "newline_on_write linesep s = concat (map (\<lambda>c. if c = CHR 0x0A then linesep else [c]) s)"

text \<open>\<^verbatim>\<open>str(n)\<close> for a Python integer: decimal digits, with a minus sign when negative.\<close>

definition digit_char :: "int \<Rightarrow> char" where
  "digit_char d = (''0123456789'' ! nat d)"

function str_digits :: "int \<Rightarrow> string" where
  "str_digits n =
     (if n < 10 then [digit_char n] else str_digits (n div 10) @ [digit_char (n mod 10)])"
  by pat_completeness auto
termination
  by (relation "measure nat") auto

declare str_digits.simps [simp del]

definition str_int :: "int \<Rightarrow> string" where
  "str_int n = (if n < 0 then CHR ''-'' # str_digits (- n) else str_digits n)"

subsection \<open>The URL pattern\<close>

text \<open>
  \<^verbatim>\<open>re.match(r'^https://(?:www\.)?github.com/([^/]+)/([^/]+)$', url)\<close>.
  The pattern has no real choice points, so it is matched left to right:
  the literal \<^verbatim>\<open>https://\<close>; the optional literal \<^verbatim>\<open>www.\<close> (when it is present the
  alternative without it cannot match, since \<^verbatim>\<open>github\<close> does not start with \<^verbatim>\<open>w\<close>);
  the literal \<^verbatim>\<open>github\<close>; one character for the unescaped dot, which is any character
  but a newline; the literal \<^verbatim>\<open>com/\<close>; the first group, the longest run of characters
  other than \<^verbatim>\<open>/\<close>, not empty and followed by \<^verbatim>\<open>/\<close>; the second group, again a run of
  characters other than \<^verbatim>\<open>/\<close>, not empty, which must reach the end of the string
  (the class \<^verbatim>\<open>[^/]\<close> takes a newline too, so the greedy group always runs to the end
  and \<^verbatim>\<open>$\<close> is tried there). The result is \<^verbatim>\<open>match.groups()\<close>, or \<open>None\<close>.
\<close>

fun strip_prefix :: "string \<Rightarrow> string \<Rightarrow> string option" where
  "strip_prefix [] s = Some s"
| "strip_prefix (p # ps) [] = None"
| "strip_prefix (p # ps) (c # cs) = (if p = c then strip_prefix ps cs else None)"

definition re_match_github_url :: "string \<Rightarrow> (string \<times> string) option" where
  "re_match_github_url url =
     (case strip_prefix ''https://'' url of
        None \<Rightarrow> None
      | Some r0 \<Rightarrow>
          (case strip_prefix ''github''
                  (case strip_prefix ''www.'' r0 of Some r \<Rightarrow> r | None \<Rightarrow> r0) of
             None \<Rightarrow> None
           | Some [] \<Rightarrow> None
           | Some (c # r3) \<Rightarrow>
               if c = CHR 0x0A then None
               else
                 (case strip_prefix ''com/'' r3 of
                    None \<Rightarrow> None
                  | Some r4 \<Rightarrow>
                      (let author = takeWhile (\<lambda>x. x \<noteq> CHR ''/'') r4 in
                       if author = [] then None
                       else
                         (case dropWhile (\<lambda>x. x \<noteq> CHR ''/'') r4 of
                            [] \<Rightarrow> None
                          | slash # name \<Rightarrow>
                              if name = [] \<or> CHR ''/'' \<in> set name then None
                              else Some (author, name))))))"

subsection \<open>The version-control capability\<close>

text \<open>
  The program drives git through GitPython. The repository is modelled by what the
  workflow reads and changes: the symbolic \<^verbatim>\<open>HEAD\<close> (on a branch, or detached at a
  commit), the local branches with the history each points at (commit messages, newest
  first; a branch that \<^verbatim>\<open>HEAD\<close> names but that is not in the list is unborn), the
  remotes with their URLs, whether the working tree holds changes that are not staged
  (modified, deleted or untracked files), whether the index holds staged changes, and a
  log of what has been pushed where.

  Local git commands are functions of this state: each fails exactly when git refuses
  the command in that state, and a failed command leaves the repository as it was.
  Whether a push is accepted depends on the network and the server, and is an input.
\<close>

datatype head = Branch string | Detached "string list"

record git_repo =
  HEAD :: head
  branches :: "(string \<times> string list) list"
  remotes :: "(string \<times> string) list"
  unstaged :: bool
  staged :: bool
  pushed :: "(string \<times> string \<times> string list) list"

text \<open>The commit \<^verbatim>\<open>HEAD\<close> resolves to; \<open>None\<close> on an unborn branch.\<close>

definition head_commit :: "git_repo \<Rightarrow> string list option" where
  "head_commit r = (case HEAD r of Branch b \<Rightarrow> map_of (branches r) b | Detached c \<Rightarrow> Some c)"

text \<open>\<^verbatim>\<open>repo.active_branch.name\<close>: GitPython raises \<^verbatim>\<open>TypeError\<close> on a detached \<^verbatim>\<open>HEAD\<close>.\<close>

definition active_branch_name :: "git_repo \<Rightarrow> exn + string" where
  "active_branch_name r = (case HEAD r of Branch b \<Rightarrow> Inr b | Detached c \<Rightarrow> Inl TypeError)"

text \<open>
  \<^verbatim>\<open>repo.git.checkout('HEAD', b=name)\<close>, that is \<^verbatim>\<open>git checkout -b name HEAD\<close>: fails when
  \<^verbatim>\<open>HEAD\<close> is not a commit or the branch exists; the new branch starts at \<^verbatim>\<open>HEAD\<close>'s
  commit and local changes are carried over.
\<close>

definition git_checkout_b :: "string \<Rightarrow> git_repo \<Rightarrow> exn + git_repo" where
  "git_checkout_b name r =
     (case head_commit r of
        None \<Rightarrow> Inl (GitCommandError ''checkout'')
      | Some c \<Rightarrow>
          if map_of (branches r) name \<noteq> None then Inl (GitCommandError ''checkout'')
          else Inr (r\<lparr>HEAD := Branch name, branches := branches r @ [(name, c)]\<rparr>))"

text \<open>\<^verbatim>\<open>repo.git.add('--all')\<close>: everything in the working tree is staged.\<close>

definition git_add_all :: "git_repo \<Rightarrow> exn + git_repo" where
  "git_add_all r = Inr (r\<lparr>staged := (staged r \<or> unstaged r), unstaged := False\<rparr>)"

text \<open>
  \<^verbatim>\<open>repo.git.commit(m=msg)\<close>: git exits with an error when nothing is staged; otherwise
  the current branch (or the detached \<^verbatim>\<open>HEAD\<close>) advances by one commit.
\<close>

definition git_commit :: "string \<Rightarrow> git_repo \<Rightarrow> exn + git_repo" where
  "git_commit msg r =
     (if \<not> staged r then Inl (GitCommandError ''commit'')
      else
        (case HEAD r of
           Branch b \<Rightarrow>
             Inr (r\<lparr>branches :=
                        AList.update b
                          (msg # (case map_of (branches r) b of Some c \<Rightarrow> c | None \<Rightarrow> []))
                          (branches r),
                     staged := False\<rparr>)
         | Detached c \<Rightarrow> Inr (r\<lparr>HEAD := Detached (msg # c), staged := False\<rparr>)))"

text \<open>
  \<^verbatim>\<open>repo.create_remote(name, url)\<close>: fails when a remote of that name exists; returns the
  remote (here its name) otherwise.
\<close>

definition create_remote :: "string \<Rightarrow> string \<Rightarrow> git_repo \<Rightarrow> exn + (string \<times> git_repo)" where
  "create_remote name url r =
     (if map_of (remotes r) name \<noteq> None then Inl (GitCommandError ''remote add'')
      else Inr (name, r\<lparr>remotes := remotes r @ [(name, url)]\<rparr>))"

text \<open>\<^verbatim>\<open>repo.delete_remote(name)\<close>: fails when there is no remote of that name.\<close>

definition delete_remote :: "string \<Rightarrow> git_repo \<Rightarrow> exn + git_repo" where
  "delete_remote name r =
     (if map_of (remotes r) name = None then Inl (GitCommandError ''remote rm'')
      else Inr (r\<lparr>remotes := AList.delete name (remotes r)\<rparr>))"

text \<open>
  \<^verbatim>\<open>remote.push()\<close>: sends the current branch to the remote's URL. It needs the remote
  and a current branch with a commit, and the server's acceptance.
\<close>

definition remote_push :: "string \<Rightarrow> bool \<Rightarrow> git_repo \<Rightarrow> exn + git_repo" where
  "remote_push name accepted r =
     (case map_of (remotes r) name of
        None \<Rightarrow> Inl (GitCommandError ''push'')
      | Some url \<Rightarrow>
          (case HEAD r of
             Detached c \<Rightarrow> Inl (GitCommandError ''push'')
           | Branch b \<Rightarrow>
               (case map_of (branches r) b of
                  None \<Rightarrow> Inl (GitCommandError ''push'')
                | Some c \<Rightarrow>
                    if accepted then Inr (r\<lparr>pushed := pushed r @ [(url, b, c)]\<rparr>)
                    else Inl (GitCommandError ''push''))))"

text \<open>
  \<^verbatim>\<open>repo.git.checkout(name)\<close>: fails when there is no such branch. Git also refuses to
  switch when local changes would be overwritten; the model has no file contents, so it
  takes the pessimistic reading: with local changes present, only a branch at the
  commit of \<^verbatim>\<open>HEAD\<close> can be checked out.
\<close>

definition git_checkout :: "string \<Rightarrow> git_repo \<Rightarrow> exn + git_repo" where
  "git_checkout name r =
     (case map_of (branches r) name of
        None \<Rightarrow> Inl (GitCommandError ''checkout'')
      | Some c \<Rightarrow>
          if (staged r \<or> unstaged r) \<and> head_commit r \<noteq> Some c
          then Inl (GitCommandError ''checkout'')
          else Inr (r\<lparr>HEAD := Branch name\<rparr>))"

subsection \<open>The world the program runs in\<close>

text \<open>
  The contents of the slug file \<^verbatim>\<open>config_dir/slug\<close> as stored (\<open>None\<close> when it is absent
  or cannot be read),
  whether \<^verbatim>\<open>config_dir\<close> is a directory, the git repositories by path (\<open>None\<close> where
  \<^verbatim>\<open>git.Repo(path)\<close> raises), the current directory, the lines the user will type, what
  has been written to the terminal, the value of \<^verbatim>\<open>int(time.time() * 1000)\<close>, whether
  the server accepts a push, and what the \<^verbatim>\<open>platform\<close> module reports.
\<close>

record world =
  slug_file :: "string option"
  config_dir_exists :: bool
  repos :: "string \<Rightarrow> git_repo option"
  cwd :: string
  stdin :: "string list"
  stdout :: "string list"
  clock_millis :: int
  push_accepted :: bool
  platform_system :: string
  platform_dist :: "string \<times> string"
  platform_version :: string
  python_version :: string

text \<open>\<^verbatim>\<open>os.linesep\<close>: \<^verbatim>\<open>\r\n\<close> on Windows, \<^verbatim>\<open>\n\<close> elsewhere.\<close>

definition os_linesep :: "world \<Rightarrow> string" where
  "os_linesep w =
     (if platform_system w = ''Windows'' then [CHR 0x0D, CHR 0x0A] else [CHR 0x0A])"

definition print :: "string \<Rightarrow> world \<Rightarrow> world" where
  "print s w = w\<lparr>stdout := stdout w @ [s @ [CHR 0x0A]]\<rparr>"

text \<open>\<^verbatim>\<open>user_input(prompt)\<close>: writes the prompt and reads a line; \<^verbatim>\<open>EOFError\<close> at end of input.\<close>

definition user_input :: "string \<Rightarrow> world \<Rightarrow> (exn + string) \<times> world" where
  "user_input prompt w =
     (case stdin w of
        [] \<Rightarrow> (Inl EOFError, w\<lparr>stdout := stdout w @ [prompt]\<rparr>)
      | l # ls \<Rightarrow> (Inr l, w\<lparr>stdin := ls, stdout := stdout w @ [prompt]\<rparr>))"

subsection \<open>The class TryTravis\<close>

record TryTravis =
  path :: string
  slug :: "string option"
  build :: "string option"
  build_url :: "string option"

definition TryTravis_init :: "string \<Rightarrow> TryTravis" where
  "TryTravis_init p = \<lparr>path = p, slug = None, build = None, build_url = None\<rparr>"

text \<open>
  \<^verbatim>\<open>with open(os.path.join(config_dir, 'slug'), 'r') as f: self.slug = f.read()\<close>:
  a text-mode read of the stored contents.
\<close>

definition load_trytravis_github_slug :: "TryTravis \<Rightarrow> world \<Rightarrow> (exn + unit) \<times> TryTravis" where
  "load_trytravis_github_slug self w =
     (case slug_file w of
        None \<Rightarrow>
          (Inl (RuntimeError
             ''Could not find your repository. Have you ran `trytravis --repo`?''), self)
      | Some s \<Rightarrow> (Inr (), self\<lparr>slug := Some (universal_newlines s)\<rparr>))"

text \<open>
  The body of the \<^verbatim>\<open>try\<close> block of \<^verbatim>\<open>_submit_project_to_github\<close>. It returns the
  pending exception, if any, and the repository as the block leaves it. The inner
  \<^verbatim>\<open>try: remote = repo.create_remote(...) except: pass\<close> binds \<^verbatim>\<open>remote\<close> only when the
  call succeeds (evaluating the argument \<^verbatim>\<open>'https://github.com/' + self.slug\<close> raises
  \<^verbatim>\<open>TypeError\<close> inside that \<^verbatim>\<open>try\<close> when the slug is \<^verbatim>\<open>None\<close>); \<^verbatim>\<open>remote.push()\<close> on an
  unbound \<^verbatim>\<open>remote\<close> raises \<^verbatim>\<open>UnboundLocalError\<close>.
\<close>

definition submit_try :: "TryTravis \<Rightarrow> int \<Rightarrow> bool \<Rightarrow> git_repo \<Rightarrow> exn option \<times> git_repo" where
  "submit_try self millis accepted repo =
     (let new_branch = ''trytravis-'' @ str_int millis in
      case git_checkout_b new_branch repo of
        Inl e \<Rightarrow> (Some e, repo)
      | Inr repo1 \<Rightarrow>
          (case git_add_all repo1 of
             Inl e \<Rightarrow> (Some e, repo1)
           | Inr repo2 \<Rightarrow>
               (case git_commit ''trytravis'' repo2 of
                  Inl e \<Rightarrow> (Some e, repo2)
                | Inr repo3 \<Rightarrow>
                    (case (case slug self of
                             None \<Rightarrow> Inl TypeError
                           | Some s \<Rightarrow>
                               create_remote ''trytravis'' (''https://github.com/'' @ s) repo3) of
                       Inl e \<Rightarrow> (Some (UnboundLocalError ''remote''), repo3)
                     | Inr (remote, repo4) \<Rightarrow>
                         (case remote_push remote accepted repo4 of
                            Inl e \<Rightarrow> (Some e, repo4)
                          | Inr repo5 \<Rightarrow> (None, repo5))))))"

text \<open>
  The \<^verbatim>\<open>finally\<close> block: the remote is deleted with every error swallowed, then the old
  branch is checked out. An exception of that checkout replaces the pending one.
\<close>

definition submit_finally :: "string \<Rightarrow> exn option \<Rightarrow> git_repo \<Rightarrow> (exn + unit) \<times> git_repo" where
  "submit_finally old_branch pending repo =
     (let repo1 = (case delete_remote ''trytravis'' repo of Inl e \<Rightarrow> repo | Inr r \<Rightarrow> r) in
      case git_checkout old_branch repo1 of
        Inl e \<Rightarrow> (Inl e, repo1)
      | Inr repo2 \<Rightarrow> ((case pending of Some e \<Rightarrow> Inl e | None \<Rightarrow> Inr ()), repo2))"

definition submit_project_to_github :: "TryTravis \<Rightarrow> world \<Rightarrow> (exn + unit) \<times> world" where
  "submit_project_to_github self w =
     (case repos w (path self) of
        None \<Rightarrow> (Inl InvalidGitRepositoryError, w)
      | Some repo \<Rightarrow>
          (case active_branch_name repo of
             Inl e \<Rightarrow> (Inl e, w)
           | Inr old_branch \<Rightarrow>
               (let (pending, repo1) = submit_try self (clock_millis w) (push_accepted w) repo;
                    (res, repo2) = submit_finally old_branch pending repo1
                in (res, w\<lparr>repos := (repos w)(path self \<mapsto> repo2)\<rparr>))))"

definition wait_for_travis_build :: "TryTravis \<Rightarrow> exn + unit" where
  "wait_for_travis_build self = Inl NotImplementedError"

definition watch_travis_build :: "TryTravis \<Rightarrow> exn + unit" where
  "watch_travis_build self = Inl NotImplementedError"

definition start :: "TryTravis \<Rightarrow> world \<Rightarrow> (exn + unit) \<times> TryTravis \<times> world" where
  "start self w =
     (case load_trytravis_github_slug self w of
        (Inl e, self1) \<Rightarrow> (Inl e, self1, w)
      | (Inr u, self1) \<Rightarrow>
          (case submit_project_to_github self1 w of
             (Inl e, w1) \<Rightarrow> (Inl e, self1, w1)
           | (Inr u1, w1) \<Rightarrow>
               (case wait_for_travis_build self1 of
                  Inl e \<Rightarrow> (Inl e, self1, w1)
                | Inr u2 \<Rightarrow> (watch_travis_build self1, self1, w1))))"

subsection \<open>The entry point main\<close>

datatype outcome = Exit int | Uncaught exn

definition usage_text :: string where
  "usage_text =
     ''usage: trytravis [command]?'' @ [CHR 0x0A] @
     [CHR 0x0A] @
     ''  [empty]               Running with no command submits your git repo to Travis.'' @ [CHR 0x0A] @
     ''  --help, -h            Prints this help string.'' @ [CHR 0x0A] @
     ''  --version, -v         Prints out the version, useful when submitting an issue.'' @ [CHR 0x0A] @
     ''  --repo, -r [repo]?    Tells the program you wish to setup your building repository.'' @ [CHR 0x0A] @
     [CHR 0x0A] @
     ''If you'' @ [CHR 0x27] @ ''re still having troubles feel free to open an issue at our'' @ [CHR 0x0A] @
     ''issue tracker: https://github.com/SethMichaelLarson/trytravis/issues''"

definition version_text :: "world \<Rightarrow> string" where
  "version_text w =
     (let (name, version) =
            (if platform_system w = ''Linux'' then platform_dist w
             else (platform_system w, platform_version w))
      in ''trytravis 0.0.0.dev0 ('' @ lower name @ '' '' @ version @ '', python '' @
         python_version w @ '')'')"

definition invalid_url_message :: string where
  "invalid_url_message =
     ''That URL doesn'' @ [CHR 0x27] @
     ''t look like a valid GitHub URL. We expect somethingof the form: '' @
     ''`https://github.com/[USERNAME]/[REPOSITORY]`''"

definition url_prompt :: string where
  "url_prompt = ''Input the URL of the GitHub repository to use as a `trytravis` repository: ''"

definition accept_prompt :: "string \<Rightarrow> string \<Rightarrow> string" where
  "accept_prompt author name =
     ''Remember that `trytravis` will make commits on your behalf to '' @
     ''`https://github.com/'' @ author @ ''/'' @ name @
     ''`. Are you sure you wish to use this '' @
     ''repository? Type `y` or `yes` to accept: ''"

text \<open>\<^verbatim>\<open>token_input_argv = len(argv) == 2 and argv[0] in ['--token', '-t', '-T']\<close>.\<close>

definition token_input_argv :: "string list \<Rightarrow> bool" where
  "token_input_argv argv =
     (length argv = 2 \<and> hd argv \<in> set [''--token'', ''-t'', ''-T''])"

text \<open>
  The branch \<^verbatim>\<open>elif arg in ['-r', '--repo', '-R']\<close> of \<^verbatim>\<open>main\<close>: the URL is taken from
  \<^verbatim>\<open>argv[1]\<close> when there are two arguments and asked for otherwise, stripped, matched;
  the user is asked to accept; the directory is made when missing and the slug written in
  text mode (\<^verbatim>\<open>os.makedirs\<close> and the write are taken to succeed).
\<close>

definition main_repo :: "string list \<Rightarrow> world \<Rightarrow> (exn + unit) \<times> world" where
  "main_repo argv w =
     (case (if length argv = 2 then (Inr (argv ! 1), w) else user_input url_prompt w) of
        (Inl e, w1) \<Rightarrow> (Inl e, w1)
      | (Inr url0, w1) \<Rightarrow>
          (case re_match_github_url (strip url0) of
             None \<Rightarrow> (Inl (RuntimeError invalid_url_message), w1)
           | Some (author, name) \<Rightarrow>
               (case user_input (accept_prompt author name) w1 of
                  (Inl e, w2) \<Rightarrow> (Inl e, w2)
                | (Inr accept, w2) \<Rightarrow>
                    if lower accept \<notin> set [''y'', ''yes'']
                    then (Inl (RuntimeError ''Operation aborted by user.''), w2)
                    else
                      (let w3 = (if \<not> config_dir_exists w2
                                 then w2\<lparr>config_dir_exists := True\<rparr> else w2);
                           w4 = w3\<lparr>slug_file :=
                                   Some (newline_on_write (os_linesep w3)
                                           (''/'' @ author @ ''/'' @ name))\<rparr>
                       in (Inr (), print ''Repository saved successfully.'' w4)))))"

text \<open>
  The body of the \<^verbatim>\<open>try\<close> of \<^verbatim>\<open>main\<close> from the comment
  \<^verbatim>\<open># Parse the command and do the right thing.\<close> on.
\<close>

definition main_command :: "string list \<Rightarrow> world \<Rightarrow> (exn + unit) \<times> world" where
  "main_command argv w =
     (if length argv = 1 \<or> token_input_argv argv then
        (let arg = hd argv in
         if arg \<in> set [''-h'', ''--help'', ''-H''] then (Inr (), print usage_text w)
         else if arg \<in> set [''-v'', ''--version'', ''-V''] then (Inr (), print (version_text w) w)
         else if arg \<in> set [''-r'', ''--repo'', ''-R''] then main_repo argv w
         else (Inr (), w))
      else if length argv = 0 then
        (case start (TryTravis_init (cwd w)) w of (res, self, w1) \<Rightarrow> (res, w1))
      else (Inr (), w))"

text \<open>
  \<^verbatim>\<open>argv\<close> is the list of arguments (\<^verbatim>\<open>sys.argv[1:]\<close> when the caller passes \<^verbatim>\<open>None\<close>).
  \<^verbatim>\<open>main\<close> always ends in \<^verbatim>\<open>sys.exit\<close> or in an exception it does not catch, so its
  result is an \<open>outcome\<close>. With more than one argument that is not a token input it
  calls \<^verbatim>\<open>main(['--help'])\<close>; that call ends in \<^verbatim>\<open>sys.exit(0)\<close>, and the \<^verbatim>\<open>SystemExit\<close>
  passes through the caller's \<^verbatim>\<open>except RuntimeError\<close>, so the outcome of the inner call
  is the outcome of the outer one. A caught error is printed in red
  (\<^verbatim>\<open>colorama.Fore.RED\<close>, \<^verbatim>\<open>colorama.Style.RESET_ALL\<close>) and the exit status is 1.
\<close>

function main :: "string list \<Rightarrow> world \<Rightarrow> outcome \<times> world" where
  "main argv w =
     (if length argv > 1 \<and> \<not> token_input_argv argv then main [''--help''] w
      else
        (case main_command argv w of
           (Inl e, w1) \<Rightarrow>
             if is_RuntimeError e
             then (Exit 1,
                   print ((CHR 0x1B # ''[31m'') @ ''ERROR: '' @ str_exn e @ (CHR 0x1B # ''[0m'')) w1)
             else (Uncaught e, w1)
         | (Inr u, w1) \<Rightarrow> (Exit 0, w1)))"
  by pat_completeness auto
termination
  by (relation "measure (\<lambda>(argv, w). length argv)") auto

declare main.simps [simp del]

subsection \<open>A concrete scenario\<close>

text \<open>
  The spec's Scenario A: the slug file holds \<^verbatim>\<open>/octocat/hello-world\<close>, the repository
  is on \<^verbatim>\<open>master\<close> with one commit and has a modified file.
\<close>

definition example_repo :: git_repo where
  "example_repo =
     \<lparr>HEAD = Branch ''master'',
      branches = [(''master'', [''initial commit''])],
      remotes = [(''origin'', ''https://github.com/me/project'')],
      unstaged = True, staged = False, pushed = []\<rparr>"

definition example_self :: TryTravis where
  "example_self =
     \<lparr>path = ''/home/me/project'', slug = Some ''/octocat/hello-world'',
      build = None, build_url = None\<rparr>"

definition example_world :: world where
  "example_world =
     \<lparr>slug_file = Some ''/octocat/hello-world'',
      config_dir_exists = True,
      repos = [''/home/me/project'' \<mapsto> example_repo],
      cwd = ''/home/me/project'',
      stdin = [], stdout = [],
      clock_millis = 1507000000123,
      push_accepted = True,
      platform_system = ''Linux'',
      platform_dist = (''Ubuntu'', ''16.04''),
      platform_version = ''#1 SMP'',
      python_version = ''3.6.2''\<rparr>"

text \<open>The same repository with a remote \<^verbatim>\<open>trytravis\<close> left over from an earlier run.\<close>

definition leftover_repo :: git_repo where
  "leftover_repo =
     example_repo\<lparr>remotes := [(''origin'', ''https://github.com/me/project''),
                              (''trytravis'', ''https://github.com//octocat/hello-world'')]\<rparr>"

text \<open>A URL with a carriage return in its first group, as a piped input can deliver it.\<close>

definition cr_url :: string where
  "cr_url = ''https://github.com/a'' @ [CHR 0x0D] @ ''b/c''"

section \<open>Properties\<close>

subsection \<open>The git commands\<close>

lemmas git_defs = git_checkout_b_def git_add_all_def git_commit_def create_remote_def
  delete_remote_def remote_push_def git_checkout_def head_commit_def

lemma str_int_example: "str_int 1507000000123 = ''1507000000123''"
  by (simp add: str_int_def str_digits.simps digit_char_def)

text \<open>
  What the \<^verbatim>\<open>try\<close> block leaves behind when it starts on branch \<open>b\<close>: either \<^verbatim>\<open>HEAD\<close> is
  still on \<open>b\<close> (the new branch could not be created), or \<open>b\<close> exists and the tree is
  clean, so \<open>b\<close> can be checked out again.
\<close>

lemma submit_try_state:
  assumes "HEAD r = Branch b" and "submit_try self ms acc r = (p, r1)"
  shows "HEAD r1 = Branch b \<or>
         (\<exists>c. map_of (branches r1) b = Some c \<and> \<not> staged r1 \<and> \<not> unstaged r1)"
  using assms
  by (auto simp: submit_try_def git_defs Let_def AList.update_conv' map_add_def
           split: option.splits sum.splits if_splits head.splits)

text \<open>A push was recorded only when the block ended without a pending exception.\<close>

lemma submit_try_pushed:
  assumes "HEAD r = Branch b" and "submit_try self ms acc r = (p, r1)"
  shows "pushed r1 = pushed r \<or>
         (p = None \<and> (\<exists>c. map_of (branches r1) b = Some c) \<and> \<not> staged r1 \<and> \<not> unstaged r1)"
  using assms
  by (auto simp: submit_try_def git_defs Let_def AList.update_conv' map_add_def
           split: option.splits sum.splits if_splits head.splits)

lemma submit_finally_HEAD_same:
  "HEAD r = Branch b \<Longrightarrow> HEAD (snd (submit_finally b p r)) = Branch b"
  by (auto simp: submit_finally_def delete_remote_def git_checkout_def Let_def
           split: option.splits sum.splits)

lemma submit_finally_HEAD_clean:
  "map_of (branches r) b = Some c \<Longrightarrow> \<not> staged r \<Longrightarrow> \<not> unstaged r \<Longrightarrow>
   HEAD (snd (submit_finally b p r)) = Branch b"
  by (auto simp: submit_finally_def delete_remote_def git_checkout_def Let_def
           split: option.splits sum.splits)

lemma submit_finally_result_clean:
  "map_of (branches r) b = Some c \<Longrightarrow> \<not> staged r \<Longrightarrow> \<not> unstaged r \<Longrightarrow>
   fst (submit_finally b None r) = Inr ()"
  by (auto simp: submit_finally_def delete_remote_def git_checkout_def Let_def
           split: option.splits sum.splits)

lemma submit_finally_pushed:
  "pushed (snd (submit_finally b p r)) = pushed r"
  by (auto simp: submit_finally_def delete_remote_def git_checkout_def Let_def
           split: option.splits sum.splits)

lemma submit_finally_no_remote:
  "map_of (remotes (snd (submit_finally b p r))) ''trytravis'' = None"
  by (auto simp: submit_finally_def delete_remote_def git_checkout_def Let_def
                 AList.delete_conv'
           split: option.splits sum.splits)

lemma submit_finally_pending:
  "fst (submit_finally b (Some e) r) \<noteq> Inr ()"
  by (auto simp: submit_finally_def Let_def split: sum.splits)

text \<open>The workflow as a whole, once the repository is open and on a branch.\<close>

lemma submit_project_to_github_unfold:
  assumes "repos w (path self) = Some repo" and "HEAD repo = Branch b"
  shows "submit_project_to_github self w =
           (fst (submit_finally b (fst (submit_try self (clock_millis w) (push_accepted w) repo))
                   (snd (submit_try self (clock_millis w) (push_accepted w) repo))),
            w\<lparr>repos := (repos w)(path self \<mapsto>
               snd (submit_finally b (fst (submit_try self (clock_millis w) (push_accepted w) repo))
                   (snd (submit_try self (clock_millis w) (push_accepted w) repo))))\<rparr>)"
  using assms
  by (simp add: submit_project_to_github_def active_branch_name_def Let_def split_beta)

lemma submit_restores_branch:
  assumes "repos w (path self) = Some repo" and "HEAD repo = Branch b"
  shows "\<exists>repo'. repos (snd (submit_project_to_github self w)) (path self) = Some repo' \<and>
                 HEAD repo' = Branch b"
proof -
  obtain p r1 where t: "submit_try self (clock_millis w) (push_accepted w) repo = (p, r1)"
    by (cases "submit_try self (clock_millis w) (push_accepted w) repo")
  from submit_try_state [OF assms(2) t]
  have "HEAD (snd (submit_finally b p r1)) = Branch b"
    by (auto intro: submit_finally_HEAD_same submit_finally_HEAD_clean)
  then show ?thesis
    by (simp add: submit_project_to_github_unfold [OF assms] t)
qed

lemma submit_removes_remote:
  assumes "repos w (path self) = Some repo" and "HEAD repo = Branch b"
  shows "\<exists>repo'. repos (snd (submit_project_to_github self w)) (path self) = Some repo' \<and>
                 map_of (remotes repo') ''trytravis'' = None"
  by (simp add: submit_project_to_github_unfold [OF assms] submit_finally_no_remote)

lemma submit_pushed_returns:
  assumes "repos w (path self) = Some repo" and "HEAD repo = Branch b"
    and "repos (snd (submit_project_to_github self w)) (path self) = Some repo'"
    and "pushed repo' \<noteq> pushed repo"
  shows "fst (submit_project_to_github self w) = Inr ()"
proof -
  obtain p r1 where t: "submit_try self (clock_millis w) (push_accepted w) repo = (p, r1)"
    by (cases "submit_try self (clock_millis w) (push_accepted w) repo")
  from assms(3,4) have "pushed r1 \<noteq> pushed repo"
    by (auto simp: submit_project_to_github_unfold [OF assms(1,2)] t submit_finally_pushed)
  with submit_try_pushed [OF assms(2) t]
  obtain c where "p = None" "map_of (branches r1) b = Some c" "\<not> staged r1" "\<not> unstaged r1"
    by auto
  then show ?thesis
    by (simp add: submit_project_to_github_unfold [OF assms(1,2)] t
                  submit_finally_result_clean)
qed

lemma start_load_path:
  "path (snd (load_trytravis_github_slug self w)) = path self"
  by (simp add: load_trytravis_github_slug_def split: option.splits)

subsection \<open>The method start\<close>

lemma start_eq:
  "start self w =
     (case slug_file w of
        None \<Rightarrow>
          (Inl (RuntimeError
             ''Could not find your repository. Have you ran `trytravis --repo`?''), self, w)
      | Some s \<Rightarrow>
          (case fst (submit_project_to_github (self\<lparr>slug := Some (universal_newlines s)\<rparr>) w) of
             Inl e \<Rightarrow> Inl e
           | Inr u \<Rightarrow> Inl NotImplementedError,
           self\<lparr>slug := Some (universal_newlines s)\<rparr>,
           snd (submit_project_to_github (self\<lparr>slug := Some (universal_newlines s)\<rparr>) w)))"
  by (simp add: start_def load_trytravis_github_slug_def wait_for_travis_build_def
           split: option.splits prod.splits sum.splits)

lemma start_never_returns: "fst (start self w) \<noteq> Inr ()"
  by (simp add: start_eq split: option.splits sum.splits)

lemma main_no_arguments:
  "main [] w =
     (case start (TryTravis_init (cwd w)) w of
        (Inl e, self, w1) \<Rightarrow>
          if is_RuntimeError e
          then (Exit 1,
                print ((CHR 0x1B # ''[31m'') @ ''ERROR: '' @ str_exn e @ (CHR 0x1B # ''[0m'')) w1)
          else (Uncaught e, w1)
      | (Inr u, self, w1) \<Rightarrow> (Exit 0, w1))"
  by (simp add: main.simps main_command_def token_input_argv_def
           split: prod.splits sum.splits)

lemma main_no_arguments_fails: "fst (main [] w) \<noteq> Exit 0"
proof -
  obtain res self1 w1 where s: "start (TryTravis_init (cwd w)) w = (res, self1, w1)"
    by (cases "start (TryTravis_init (cwd w)) w")
  with start_never_returns [of "TryTravis_init (cwd w)" w] have "res \<noteq> Inr ()" by simp
  then obtain e where "res = Inl e" by (cases res) auto
  then show ?thesis by (simp add: main_no_arguments s)
qed

lemma example_try:
  "submit_try example_self 1507000000123 True example_repo =
     (None,
      \<lparr>HEAD = Branch ''trytravis-1507000000123'',
       branches = [(''master'', [''initial commit'']),
                   (''trytravis-1507000000123'', [''trytravis'', ''initial commit''])],
       remotes = [(''origin'', ''https://github.com/me/project''),
                  (''trytravis'', ''https://github.com//octocat/hello-world'')],
       unstaged = False, staged = False,
       pushed = [(''https://github.com//octocat/hello-world'', ''trytravis-1507000000123'',
                  [''trytravis'', ''initial commit''])]\<rparr>)"
  by (simp add: submit_try_def str_int_example git_defs example_repo_def example_self_def Let_def)

lemma leftover_try:
  "submit_try example_self 1507000000123 True leftover_repo =
     (Some (UnboundLocalError ''remote''),
      \<lparr>HEAD = Branch ''trytravis-1507000000123'',
       branches = [(''master'', [''initial commit'']),
                   (''trytravis-1507000000123'', [''trytravis'', ''initial commit''])],
       remotes = [(''origin'', ''https://github.com/me/project''),
                  (''trytravis'', ''https://github.com//octocat/hello-world'')],
       unstaged = False, staged = False,
       pushed = []\<rparr>)"
  by (simp add: submit_try_def str_int_example git_defs example_repo_def leftover_repo_def
                example_self_def Let_def)

lemma example_world_fields:
  "slug_file example_world = Some ''/octocat/hello-world''"
  "repos example_world ''/home/me/project'' = Some example_repo"
  "clock_millis example_world = 1507000000123"
  "push_accepted example_world"
  "cwd example_world = ''/home/me/project''"
  by (simp_all add: example_world_def)

lemma example_self_fields:
  "universal_newlines ''/octocat/hello-world'' = ''/octocat/hello-world''"
  "path example_self = ''/home/me/project''"
  "example_self\<lparr>slug := Some ''/octocat/hello-world''\<rparr> = example_self"
  "TryTravis_init ''/home/me/project''\<lparr>slug := Some ''/octocat/hello-world''\<rparr> = example_self"
  by (simp_all add: example_self_def TryTravis_init_def)

lemma example_repo_fields:
  "HEAD example_repo = Branch ''master''" "pushed example_repo = []"
  "HEAD leftover_repo = Branch ''master''" "pushed leftover_repo = []"
  "map_of (remotes leftover_repo) ''trytravis'' = Some ''https://github.com//octocat/hello-world''"
  by (simp_all add: example_repo_def leftover_repo_def)

lemma example_submit_result:
  "fst (submit_project_to_github example_self example_world) = Inr ()"
  by (simp add: submit_project_to_github_unfold [of _ _ example_repo "''master''"]
        example_world_fields example_self_fields example_repo_fields example_try
        submit_finally_def delete_remote_def git_checkout_def head_commit_def)

lemma example_submit_repo:
  "repos (snd (submit_project_to_github example_self example_world)) ''/home/me/project'' =
     Some \<lparr>HEAD = Branch ''master'',
       branches = [(''master'', [''initial commit'']),
                   (''trytravis-1507000000123'', [''trytravis'', ''initial commit''])],
       remotes = [(''origin'', ''https://github.com/me/project'')],
       unstaged = False, staged = False,
       pushed = [(''https://github.com//octocat/hello-world'', ''trytravis-1507000000123'',
                  [''trytravis'', ''initial commit''])]\<rparr>"
  by (simp add: submit_project_to_github_unfold [of _ _ example_repo "''master''"]
        example_world_fields example_self_fields example_repo_fields example_try
        submit_finally_def delete_remote_def git_checkout_def head_commit_def)

subsection \<open>Claims about the transient-branch workflow\<close>

text \<open>
  C1. For every call of \<^verbatim>\<open>submit\<close> on a repository whose active branch can be read, the
  active branch after the call is the branch that was active before it, whether the
  call returns or raises. This holds for the method \<^verbatim>\<open>_submit_project_to_github\<close> and
  for \<^verbatim>\<open>start\<close>, which loads the slug first.
\<close>

theorem submit_restores_active_branch:
  assumes "repos w (path self) = Some repo" and "active_branch_name repo = Inr b"
  shows "(\<exists>repo'. repos (snd (submit_project_to_github self w)) (path self) = Some repo' \<and>
                  active_branch_name repo' = Inr b) \<and>
         (\<exists>repo'. repos (snd (snd (start self w))) (path self) = Some repo' \<and>
                  active_branch_name repo' = Inr b)"
proof -
  from assms(2) have h: "HEAD repo = Branch b"
    by (simp add: active_branch_name_def split: head.splits)
  have branch: "HEAD r = Branch b \<Longrightarrow> active_branch_name r = Inr b" for r
    by (simp add: active_branch_name_def)
  have one: "\<exists>repo'. repos (snd (submit_project_to_github s w)) (path self) = Some repo' \<and>
                     active_branch_name repo' = Inr b" if "path s = path self" for s
    using submit_restores_branch [of w s repo b] assms(1) h that by (auto intro: branch)
  show ?thesis
  proof (cases "slug_file w")
    case None
    with assms one [of self] show ?thesis by (simp add: start_eq)
  next
    case (Some s)
    with one [of self] one [of "self\<lparr>slug := Some (universal_newlines s)\<rparr>"]
    show ?thesis by (simp add: start_eq)
  qed
qed

theorem submit_restores_active_branch_witness:
  "repos example_world (path example_self) = Some example_repo \<and>
   active_branch_name example_repo = Inr ''master'' \<and>
   HEAD (snd (submit_try example_self (clock_millis example_world)
                (push_accepted example_world) example_repo)) = Branch ''trytravis-1507000000123'' \<and>
   (\<exists>repo'. repos (snd (submit_project_to_github example_self example_world))
              (path example_self) = Some repo' \<and> active_branch_name repo' = Inr ''master'') \<and>
   (\<exists>repo'. repos (snd (snd (start example_self example_world)))
              (path example_self) = Some repo' \<and> active_branch_name repo' = Inr ''master'')"
proof -
  have r: "repos example_world (path example_self) = Some example_repo"
    by (simp add: example_world_fields example_self_fields)
  have a: "active_branch_name example_repo = Inr ''master''"
    by (simp add: active_branch_name_def example_repo_fields)
  have t: "HEAD (snd (submit_try example_self (clock_millis example_world)
                (push_accepted example_world) example_repo)) = Branch ''trytravis-1507000000123''"
    by (simp add: example_world_fields example_try)
  from r a t submit_restores_active_branch [OF r a] show ?thesis by simp
qed

text \<open>
  C2. For every call of \<^verbatim>\<open>submit\<close> that reaches the transient-branch workflow (the
  repository opens and its branch is read; for \<^verbatim>\<open>start\<close>, the slug was loaded), no remote
  named \<^verbatim>\<open>trytravis\<close> exists in the repository afterwards, on the success path and on
  every failure path.
\<close>

theorem submit_removes_trytravis_remote:
  assumes "repos w (path self) = Some repo" and "active_branch_name repo = Inr b"
  shows "(\<exists>repo'. repos (snd (submit_project_to_github self w)) (path self) = Some repo' \<and>
                  ''trytravis'' \<notin> fst ` set (remotes repo')) \<and>
         (slug_file w \<noteq> None \<longrightarrow>
           (\<exists>repo'. repos (snd (snd (start self w))) (path self) = Some repo' \<and>
                    ''trytravis'' \<notin> fst ` set (remotes repo')))"
proof -
  from assms(2) have h: "HEAD repo = Branch b"
    by (simp add: active_branch_name_def split: head.splits)
  have one: "\<exists>repo'. repos (snd (submit_project_to_github s w)) (path self) = Some repo' \<and>
                     ''trytravis'' \<notin> fst ` set (remotes repo')" if "path s = path self" for s
    using submit_removes_remote [of w s repo b] assms(1) h that
    by (auto simp: map_of_eq_None_iff)
  show ?thesis
    using one [of self]
      one [of "self\<lparr>slug := map_option universal_newlines (slug_file w)\<rparr>"]
    by (auto simp: start_eq)
qed

theorem submit_removes_trytravis_remote_witness:
  "repos (example_world\<lparr>repos := [''/home/me/project'' \<mapsto> leftover_repo]\<rparr>) (path example_self)
     = Some leftover_repo \<and>
   active_branch_name leftover_repo = Inr ''master'' \<and>
   ''trytravis'' \<in> fst ` set (remotes leftover_repo) \<and>
   slug_file (example_world\<lparr>repos := [''/home/me/project'' \<mapsto> leftover_repo]\<rparr>) \<noteq> None \<and>
   (\<exists>repo'. repos (snd (submit_project_to_github example_self
                (example_world\<lparr>repos := [''/home/me/project'' \<mapsto> leftover_repo]\<rparr>)))
              (path example_self) = Some repo' \<and> ''trytravis'' \<notin> fst ` set (remotes repo')) \<and>
   (\<exists>repo'. repos (snd (snd (start example_self
                (example_world\<lparr>repos := [''/home/me/project'' \<mapsto> leftover_repo]\<rparr>))))
              (path example_self) = Some repo' \<and> ''trytravis'' \<notin> fst ` set (remotes repo'))"
proof -
  let ?w = "example_world\<lparr>repos := [''/home/me/project'' \<mapsto> leftover_repo]\<rparr>"
  have r: "repos ?w (path example_self) = Some leftover_repo"
    by (simp add: example_self_fields)
  have a: "active_branch_name leftover_repo = Inr ''master''"
    by (simp add: active_branch_name_def example_repo_fields)
  have m: "''trytravis'' \<in> fst ` set (remotes leftover_repo)"
    by (simp add: leftover_repo_def)
  have s: "slug_file ?w \<noteq> None"
    by (simp add: example_world_fields)
  from r a m s submit_removes_trytravis_remote [OF r a] show ?thesis by simp
qed

text \<open>
  C8. When the slug file is absent or unreadable, \<^verbatim>\<open>start\<close> raises the configuration
  error at once: the object and the world, with every repository in it, are as they
  were, so no branch is created; \<^verbatim>\<open>main\<close> without arguments exits with status 1.
\<close>

theorem start_without_slug_file:
  assumes "slug_file w = None"
  shows "start self w =
           (Inl (RuntimeError
              ''Could not find your repository. Have you ran `trytravis --repo`?''), self, w) \<and>
         fst (main [] w) = Exit 1 \<and>
         repos (snd (main [] w)) = repos w"
  using assms by (simp add: start_eq main_no_arguments print_def)

theorem start_without_slug_file_witness:
  "slug_file (example_world\<lparr>slug_file := None\<rparr>) = None \<and>
   start example_self (example_world\<lparr>slug_file := None\<rparr>) =
     (Inl (RuntimeError
        ''Could not find your repository. Have you ran `trytravis --repo`?''),
      example_self, example_world\<lparr>slug_file := None\<rparr>) \<and>
   fst (main [] (example_world\<lparr>slug_file := None\<rparr>)) = Exit 1 \<and>
   repos (snd (main [] (example_world\<lparr>slug_file := None\<rparr>))) ''/home/me/project''
     = Some example_repo"
proof -
  have n: "slug_file (example_world\<lparr>slug_file := None\<rparr>) = None" by simp
  from n start_without_slug_file [OF n, of example_self] show ?thesis
    by (simp add: example_world_fields)
qed

text \<open>
  C9. The build-waiting step \<^verbatim>\<open>_wait_for_travis_build\<close> raises \<^verbatim>\<open>NotImplementedError\<close>
  on every object. Whenever the push of a run succeeded (the repository's push log
  grew), the workflow method returned normally, \<^verbatim>\<open>start\<close> went on to the waiting step, and
  what \<^verbatim>\<open>start\<close> raises is that step's \<^verbatim>\<open>NotImplementedError\<close>. No run of \<^verbatim>\<open>start\<close>
  returns normally, and \<^verbatim>\<open>main\<close> without arguments never exits with status 0.
\<close>

theorem push_then_not_implemented:
  assumes "repos w (path self) = Some repo"
    and "repos (snd (snd (start self w))) (path self) = Some repo'"
    and "pushed repo' \<noteq> pushed repo"
  shows "wait_for_travis_build t = Inl NotImplementedError \<and>
         fst (submit_project_to_github (fst (snd (start self w))) w) = Inr () \<and>
         fst (start self w) = wait_for_travis_build (fst (snd (start self w))) \<and>
         fst (start self w) = Inl NotImplementedError \<and>
         fst (start self w) \<noteq> Inr () \<and>
         fst (main [] w) \<noteq> Exit 0"
proof -
  from assms obtain s where s: "slug_file w = Some s"
    by (cases "slug_file w") (auto simp: start_eq)
  let ?self = "self\<lparr>slug := Some (universal_newlines s)\<rparr>"
  have p: "repos w (path ?self) = Some repo" using assms(1) by simp
  have q: "repos (snd (submit_project_to_github ?self w)) (path ?self) = Some repo'"
    using assms(2) s by (simp add: start_eq)
  obtain b where b: "HEAD repo = Branch b"
  proof (cases "HEAD repo")
    case (Branch b)
    then show ?thesis by (rule that)
  next
    case (Detached c)
    with p q assms(3) show ?thesis
      by (simp add: submit_project_to_github_def active_branch_name_def)
  qed
  have r: "fst (submit_project_to_github ?self w) = Inr ()"
    by (rule submit_pushed_returns [OF p b q assms(3)])
  have o: "fst (snd (start self w)) = ?self"
    by (simp add: start_eq s)
  from r have "fst (start self w) = Inl NotImplementedError"
    by (simp add: start_eq s)
  with r o show ?thesis
    by (simp add: main_no_arguments_fails wait_for_travis_build_def)
qed

theorem push_then_not_implemented_witness:
  "repos example_world (path example_self) = Some example_repo \<and>
   (\<exists>repo'. repos (snd (snd (start example_self example_world))) (path example_self) = Some repo' \<and>
            pushed repo' \<noteq> pushed example_repo) \<and>
   wait_for_travis_build example_self = Inl NotImplementedError \<and>
   fst (submit_project_to_github (fst (snd (start example_self example_world))) example_world)
     = Inr () \<and>
   fst (start example_self example_world)
     = wait_for_travis_build (fst (snd (start example_self example_world))) \<and>
   fst (start example_self example_world) = Inl NotImplementedError \<and>
   fst (start example_self example_world) \<noteq> Inr () \<and>
   fst (main [] example_world) \<noteq> Exit 0"
proof -
  let ?r = "\<lparr>HEAD = Branch ''master'',
       branches = [(''master'', [''initial commit'']),
                   (''trytravis-1507000000123'', [''trytravis'', ''initial commit''])],
       remotes = [(''origin'', ''https://github.com/me/project'')],
       unstaged = False, staged = False,
       pushed = [(''https://github.com//octocat/hello-world'', ''trytravis-1507000000123'',
                  [''trytravis'', ''initial commit''])]\<rparr>"
  have r: "repos example_world (path example_self) = Some example_repo"
    by (simp add: example_world_fields example_self_fields)
  have q: "repos (snd (snd (start example_self example_world))) (path example_self) = Some ?r"
    by (simp add: start_eq example_world_fields example_self_fields example_submit_repo)
  have d: "pushed ?r \<noteq> pushed example_repo"
    by (simp add: example_repo_fields)
  from r q d push_then_not_implemented [OF r q d, of example_self] show ?thesis by blast
qed

lemma main_no_arguments_raises:
  assumes "fst (start (TryTravis_init (cwd w)) w) = Inl e"
  shows "fst (main [] w) = (if is_RuntimeError e then Exit 1 else Uncaught e)"
proof -
  obtain res self1 w1 where s: "start (TryTravis_init (cwd w)) w = (res, self1, w1)"
    by (cases "start (TryTravis_init (cwd w)) w")
  with assms have "res = Inl e" by simp
  then show ?thesis by (simp add: main_no_arguments s)
qed

text \<open>
  C3. The claim: when a remote named \<^verbatim>\<open>trytravis\<close> already exists, the submission goes
  on past the creation of the remote to the push without raising. The code swallows the
  error of \<^verbatim>\<open>create_remote\<close> but then has no \<^verbatim>\<open>remote\<close> to push with: on the repository
  with a leftover remote the \<^verbatim>\<open>try\<close> block ends in \<^verbatim>\<open>UnboundLocalError\<close>, nothing is
  pushed, and \<^verbatim>\<open>start\<close> and \<^verbatim>\<open>main\<close> end with that exception.
\<close>

theorem existing_remote_raises_unbound_local:
  "map_of (remotes leftover_repo) ''trytravis'' \<noteq> None \<and>
   fst (submit_try example_self 1507000000123 True leftover_repo)
     = Some (UnboundLocalError ''remote'') \<and>
   pushed (snd (submit_try example_self 1507000000123 True leftover_repo)) = [] \<and>
   fst (start example_self
          (example_world\<lparr>repos := [''/home/me/project'' \<mapsto> leftover_repo]\<rparr>))
     = Inl (UnboundLocalError ''remote'') \<and>
   fst (main [] (example_world\<lparr>repos := [''/home/me/project'' \<mapsto> leftover_repo]\<rparr>))
     = Uncaught (UnboundLocalError ''remote'')"
proof -
  let ?w = "example_world\<lparr>repos := [''/home/me/project'' \<mapsto> leftover_repo]\<rparr>"
  have f: "slug_file ?w = Some ''/octocat/hello-world''" "cwd ?w = ''/home/me/project''"
    "clock_millis ?w = 1507000000123" "push_accepted ?w"
    "repos ?w ''/home/me/project'' = Some leftover_repo"
    by (simp_all add: example_world_fields)
  have s: "fst (submit_project_to_github example_self ?w) = Inl (UnboundLocalError ''remote'')"
    by (simp add: submit_project_to_github_unfold [of _ _ leftover_repo "''master''"]
          f example_self_fields example_repo_fields leftover_try
          submit_finally_def delete_remote_def git_checkout_def head_commit_def)
  have t: "fst (start example_self ?w) = Inl (UnboundLocalError ''remote'')"
    by (simp add: start_eq f example_self_fields s)
  have i: "fst (start (TryTravis_init (cwd ?w)) ?w) = Inl (UnboundLocalError ''remote'')"
    by (simp add: start_eq f example_self_fields s)
  have m: "fst (main [] ?w) = Uncaught (UnboundLocalError ''remote'')"
    using main_no_arguments_raises [OF i] by simp
  show ?thesis
    using t m by (simp add: leftover_try example_repo_fields)
qed

text \<open>
  C4. The claim: with the slug \<^verbatim>\<open>/octocat/hello-world\<close> the temporary remote is named
  \<^verbatim>\<open>trytravis\<close>, points at \<^verbatim>\<open>https://github.com/octocat/hello-world\<close>, and the branch is
  \<^verbatim>\<open>trytravis-\<close> followed by the millisecond timestamp. The names are as claimed; the
  URL is not: the code puts \<^verbatim>\<open>https://github.com/\<close> in front of a slug that starts with
  a slash, while its own prompt announces \<^verbatim>\<open>https://github.com/octocat/hello-world\<close>.
\<close>

theorem remote_url_has_double_slash:
  "map_of (remotes (snd (submit_try example_self 1507000000123 True example_repo))) ''trytravis''
     = Some ''https://github.com//octocat/hello-world'' \<and>
   ''https://github.com//octocat/hello-world'' \<noteq> ''https://github.com/octocat/hello-world'' \<and>
   HEAD (snd (submit_try example_self 1507000000123 True example_repo))
     = Branch (''trytravis-'' @ str_int 1507000000123) \<and>
   pushed (snd (submit_try example_self 1507000000123 True example_repo))
     = [(''https://github.com//octocat/hello-world'', ''trytravis-1507000000123'',
         [''trytravis'', ''initial commit''])] \<and>
   accept_prompt ''octocat'' ''hello-world'' =
     ''Remember that `trytravis` will make commits on your behalf to '' @
     ''`https://github.com/octocat/hello-world`. Are you sure you wish to use this '' @
     ''repository? Type `y` or `yes` to accept: ''"
  by (simp add: example_try str_int_example accept_prompt_def)

subsection \<open>The configuration command\<close>

lemma main_help: "main [''--help''] w = (Exit 0, print usage_text w)"
  by (simp add: main.simps main_command_def token_input_argv_def)

text \<open>More than one argument, the first not a token flag: the help text and status 0.\<close>

lemma main_many_arguments:
  assumes "length argv > 1" and "\<not> token_input_argv argv"
  shows "main argv w = (Exit 0, print usage_text w)"
  using assms by (subst main.simps) (simp add: main_help)


lemma main_repo_flag:
  assumes "flag \<in> set [''-r'', ''--repo'', ''-R'']"
  shows "main [flag] w =
           (case main_repo [flag] w of
              (Inl e, w1) \<Rightarrow>
                if is_RuntimeError e
                then (Exit 1,
                      print ((CHR 0x1B # ''[31m'') @ ''ERROR: '' @ str_exn e @ (CHR 0x1B # ''[0m'')) w1)
                else (Uncaught e, w1)
            | (Inr u, w1) \<Rightarrow> (Exit 0, w1))"
  using assms by (subst main.simps) (auto simp: main_command_def token_input_argv_def)



lemma main_repo_declined:
  assumes "stdin w = url # accept # rest"
    and "re_match_github_url (strip url) = Some (author, name)"
    and "lower accept \<notin> set [''y'', ''yes'']"
  shows "main_repo [flag] w =
           (Inl (RuntimeError ''Operation aborted by user.''),
            w\<lparr>stdin := rest, stdout := stdout w @ [url_prompt, accept_prompt author name]\<rparr>)"
  using assms by (simp add: main_repo_def user_input_def)

lemma main_repo_accepted:
  assumes "stdin w = url # accept # rest"
    and "re_match_github_url (strip url) = Some (author, name)"
    and "lower accept \<in> set [''y'', ''yes'']"
  shows "main_repo [flag] w =
           (Inr (),
            w\<lparr>slug_file := Some (newline_on_write (os_linesep w) (''/'' @ author @ ''/'' @ name)),
              config_dir_exists := True,
              stdin := rest,
              stdout := stdout w @ [url_prompt, accept_prompt author name,
                                   ''Repository saved successfully.'' @ [CHR 0x0A]]\<rparr>)"
  using assms by (auto simp: main_repo_def user_input_def print_def Let_def os_linesep_def)

text \<open>Text written without a carriage return is read back as it was, on either platform.\<close>

lemma universal_newlines_Cons:
  "c \<noteq> CHR 0x0D \<Longrightarrow> universal_newlines (c # cs) = c # universal_newlines cs"
  by (cases cs) simp_all

lemma os_linesep_cases: "os_linesep w = [CHR 0x0A] \<or> os_linesep w = [CHR 0x0D, CHR 0x0A]"
  by (simp add: os_linesep_def)

lemma newline_on_write_Nil: "newline_on_write linesep [] = []"
  by (simp add: newline_on_write_def)

lemma newline_on_write_Cons:
  "newline_on_write linesep (c # s) =
     (if c = CHR 0x0A then linesep else [c]) @ newline_on_write linesep s"
  by (simp add: newline_on_write_def)

lemma read_back_written:
  assumes "CHR 0x0D \<notin> set s"
    and "linesep = [CHR 0x0A] \<or> linesep = [CHR 0x0D, CHR 0x0A]"
  shows "universal_newlines (newline_on_write linesep s) = s"
  using assms(1)
proof (induction s)
  case Nil
  then show ?case by (simp add: newline_on_write_Nil)
next
  case (Cons c s)
  then have ih: "universal_newlines (newline_on_write linesep s) = s" and c: "c \<noteq> CHR 0x0D"
    by auto
  from assms(2) show ?case
  proof
    assume "linesep = [CHR 0x0A]"
    with ih c show ?thesis
      by (simp add: newline_on_write_Cons universal_newlines_Cons)
  next
    assume "linesep = [CHR 0x0D, CHR 0x0A]"
    with ih c show ?thesis
      by (simp add: newline_on_write_Cons universal_newlines_Cons)
  qed
qed

lemma example_urls:
  "strip ''https://github.com/octocat/hello-world'' = ''https://github.com/octocat/hello-world''"
  "re_match_github_url ''https://github.com/octocat/hello-world'' = Some (''octocat'', ''hello-world'')"
  "re_match_github_url ''https://gitlab.com/x/y'' = None"
  "strip ''https://gitlab.com/x/y'' = ''https://gitlab.com/x/y''"
  "re_match_github_url '' https://github.com/x/y'' = None"
  "strip '' https://github.com/x/y'' = ''https://github.com/x/y''"
  "re_match_github_url ''https://github.com/x/y'' = Some (''x'', ''y'')"
  by (simp_all add: strip_def isspace_def re_match_github_url_def)

lemma example_answers:
  "lower ''y'' = ''y''" "lower ''YES'' = ''yes''" "lower ''Yes'' = ''yes''" "lower ''Y'' = ''y''"
  "lower ''no'' = ''no''" "lower '' y'' = '' y''"
  by (simp_all add: lower_def lower_char_def upper_letters_def lower_letters_def)

lemma example_linesep: "os_linesep example_world = [CHR 0x0A]"
  by (simp add: os_linesep_def example_world_def)

text \<open>
  C5. The claim: \<^verbatim>\<open>trytravis --repo <url>\<close> with a matching URL and a confirming user
  validates the URL, asks for confirmation and writes the slug. The code never gets
  there: two arguments are let through only for \<^verbatim>\<open>--token\<close>, \<^verbatim>\<open>-t\<close> and \<^verbatim>\<open>-T\<close>, so with
  \<^verbatim>\<open>--repo <url>\<close> it prints the help text and exits with status 0; nothing is asked and
  the slug file is as it was. The branch \<^verbatim>\<open>if len(argv) == 2: url = argv[1]\<close> and the help
  text \<^verbatim>\<open>--repo, -r [repo]?\<close> show that the URL argument was meant to work.
\<close>

theorem repo_with_url_argument_prints_help:
  "re_match_github_url (strip ''https://github.com/octocat/hello-world'')
     = Some (''octocat'', ''hello-world'') \<and>
   main [''--repo'', ''https://github.com/octocat/hello-world''] w
     = (Exit 0, print usage_text w) \<and>
   slug_file (snd (main [''--repo'', ''https://github.com/octocat/hello-world''] w))
     = slug_file w \<and>
   stdin (snd (main [''--repo'', ''https://github.com/octocat/hello-world''] w)) = stdin w"
  by (simp add: example_urls main_many_arguments token_input_argv_def print_def)

text \<open>
  C6, as the code has it. The slug is written and read in text mode. The step that writes
  is \<^verbatim>\<open>trytravis --repo\<close> (or \<^verbatim>\<open>-r\<close>, \<^verbatim>\<open>-R\<close>) with the URL typed at the prompt: when the
  stripped URL matches with groups \<open>author\<close> and \<open>name\<close> and the user accepts, \<^verbatim>\<open>main\<close>
  exits with status 0 and the slug \<^verbatim>\<open>/author/name\<close> is written. For every such slug
  without a carriage return, \<^verbatim>\<open>_load_trytravis_github_slug\<close> then sets \<^verbatim>\<open>self.slug\<close> to
  exactly that string, on either platform.
\<close>

theorem configured_slug_roundtrip:
  assumes "flag \<in> set [''-r'', ''--repo'', ''-R'']"
    and "stdin w = url # accept # rest"
    and "re_match_github_url (strip url) = Some (author, name)"
    and "lower accept \<in> set [''y'', ''yes'']"
    and "CHR 0x0D \<notin> set author" and "CHR 0x0D \<notin> set name"
  shows "fst (main [flag] w) = Exit 0 \<and>
         slug_file (snd (main [flag] w))
           = Some (newline_on_write (os_linesep w) (''/'' @ author @ ''/'' @ name)) \<and>
         load_trytravis_github_slug self (snd (main [flag] w))
           = (Inr (), self\<lparr>slug := Some (''/'' @ author @ ''/'' @ name)\<rparr>)"
proof -
  have "CHR 0x0D \<notin> set (''/'' @ author @ ''/'' @ name)"
    using assms(5,6) by simp
  then have "universal_newlines
               (newline_on_write (os_linesep w) (''/'' @ author @ ''/'' @ name))
             = ''/'' @ author @ ''/'' @ name"
    using os_linesep_cases by (rule read_back_written)
  then show ?thesis
    by (simp add: main_repo_flag [OF assms(1)] main_repo_accepted [OF assms(2,3,4)]
                  load_trytravis_github_slug_def)
qed

theorem configured_slug_roundtrip_witness:
  "''--repo'' \<in> set [''-r'', ''--repo'', ''-R''] \<and>
   stdin (example_world\<lparr>slug_file := None,
            stdin := [''https://github.com/octocat/hello-world'', ''y'']\<rparr>)
     = [''https://github.com/octocat/hello-world'', ''y''] \<and>
   re_match_github_url (strip ''https://github.com/octocat/hello-world'')
     = Some (''octocat'', ''hello-world'') \<and>
   lower ''y'' \<in> set [''y'', ''yes''] \<and>
   CHR 0x0D \<notin> set ''octocat'' \<and> CHR 0x0D \<notin> set ''hello-world'' \<and>
   fst (main [''--repo''] (example_world\<lparr>slug_file := None,
            stdin := [''https://github.com/octocat/hello-world'', ''y'']\<rparr>)) = Exit 0 \<and>
   slug_file (snd (main [''--repo''] (example_world\<lparr>slug_file := None,
            stdin := [''https://github.com/octocat/hello-world'', ''y'']\<rparr>)))
     = Some ''/octocat/hello-world'' \<and>
   load_trytravis_github_slug (TryTravis_init ''/home/me/project'')
       (snd (main [''--repo''] (example_world\<lparr>slug_file := None,
            stdin := [''https://github.com/octocat/hello-world'', ''y'']\<rparr>)))
     = (Inr (), example_self)"
proof -
  let ?w = "example_world\<lparr>slug_file := None,
              stdin := [''https://github.com/octocat/hello-world'', ''y'']\<rparr>"
  have f: "''--repo'' \<in> set [''-r'', ''--repo'', ''-R'']" by simp
  have i: "stdin ?w = [''https://github.com/octocat/hello-world'', ''y'']" by simp
  have m: "re_match_github_url (strip ''https://github.com/octocat/hello-world'')
             = Some (''octocat'', ''hello-world'')"
    by (simp add: example_urls)
  have a: "lower ''y'' \<in> set [''y'', ''yes'']" by (simp add: example_answers)
  have c: "CHR 0x0D \<notin> set ''octocat''" "CHR 0x0D \<notin> set ''hello-world''" by simp_all
  have l: "os_linesep ?w = [CHR 0x0A]" by (simp add: os_linesep_def example_world_def)
  from f i m a c
    configured_slug_roundtrip [OF f i m a c, of "TryTravis_init ''/home/me/project''"]
  show ?thesis
    by (simp add: example_self_fields l newline_on_write_def)
qed

text \<open>
  C6, as stated, fails: the URL \<^verbatim>\<open>https://github.com/a\rb/c\<close>, with a carriage return in
  the first group, matches the pattern; the slug \<^verbatim>\<open>/a\rb/c\<close> is written, and the read
  returns \<^verbatim>\<open>/a\nb/c\<close>.
\<close>

theorem carriage_return_slug_counterexample:
  "cr_url = ''https://github.com/a'' @ [CHR 0x0D] @ ''b/c'' \<and>
   re_match_github_url (strip cr_url) = Some ([CHR ''a'', CHR 0x0D, CHR ''b''], ''c'') \<and>
   fst (main [''--repo''] (example_world\<lparr>stdin := [cr_url, ''y'']\<rparr>)) = Exit 0 \<and>
   slug_file (snd (main [''--repo''] (example_world\<lparr>stdin := [cr_url, ''y'']\<rparr>)))
     = Some [CHR ''/'', CHR ''a'', CHR 0x0D, CHR ''b'', CHR ''/'', CHR ''c''] \<and>
   load_trytravis_github_slug example_self
       (snd (main [''--repo''] (example_world\<lparr>stdin := [cr_url, ''y'']\<rparr>)))
     = (Inr (), example_self\<lparr>slug :=
          Some [CHR ''/'', CHR ''a'', CHR 0x0A, CHR ''b'', CHR ''/'', CHR ''c'']\<rparr>) \<and>
   [CHR ''/'', CHR ''a'', CHR 0x0A, CHR ''b'', CHR ''/'', CHR ''c'']
     \<noteq> [CHR ''/'', CHR ''a'', CHR 0x0D, CHR ''b'', CHR ''/'', CHR ''c'']"
proof -
  let ?w = "example_world\<lparr>stdin := [cr_url, ''y'']\<rparr>"
  have i: "stdin ?w = [cr_url, ''y'']" by simp
  have m: "re_match_github_url (strip cr_url) = Some ([CHR ''a'', CHR 0x0D, CHR ''b''], ''c'')"
    by (simp add: cr_url_def strip_def isspace_def re_match_github_url_def)
  have a: "lower ''y'' \<in> set [''y'', ''yes'']" by (simp add: example_answers)
  have l: "os_linesep ?w = [CHR 0x0A]" by (simp add: os_linesep_def example_world_def)
  show ?thesis
  proof (rule conjI)
    show "cr_url = ''https://github.com/a'' @ [CHR 0x0D] @ ''b/c''"
      by (simp add: cr_url_def)
  next
    show "re_match_github_url (strip cr_url) = Some ([CHR ''a'', CHR 0x0D, CHR ''b''], ''c'') \<and>
      fst (main [''--repo''] ?w) = Exit 0 \<and>
      slug_file (snd (main [''--repo''] ?w))
        = Some [CHR ''/'', CHR ''a'', CHR 0x0D, CHR ''b'', CHR ''/'', CHR ''c''] \<and>
      load_trytravis_github_slug example_self (snd (main [''--repo''] ?w))
        = (Inr (), example_self\<lparr>slug :=
             Some [CHR ''/'', CHR ''a'', CHR 0x0A, CHR ''b'', CHR ''/'', CHR ''c'']\<rparr>) \<and>
      [CHR ''/'', CHR ''a'', CHR 0x0A, CHR ''b'', CHR ''/'', CHR ''c'']
        \<noteq> [CHR ''/'', CHR ''a'', CHR 0x0D, CHR ''b'', CHR ''/'', CHR ''c'']"
      by (simp add: m main_repo_flag main_repo_accepted [OF i m a] l
                    newline_on_write_def load_trytravis_github_slug_def)
  qed
qed




text \<open>
  C10. The confirmation is compared after \<^verbatim>\<open>lower()\<close>: once the URL has been accepted,
  every answer whose lowercase form is \<^verbatim>\<open>y\<close> or \<^verbatim>\<open>yes\<close> lets the slug be written and
  \<^verbatim>\<open>main\<close> exit with status 0; every other answer raises \<^verbatim>\<open>Operation aborted by user.\<close>,
  \<^verbatim>\<open>main\<close> exits with status 1, and nothing is written.
\<close>

theorem confirmation_is_case_insensitive:
  assumes "flag \<in> set [''-r'', ''--repo'', ''-R'']"
    and "stdin w = url # accept # rest"
    and "re_match_github_url (strip url) = Some (author, name)"
  shows "(lower accept = ''y'' \<or> lower accept = ''yes'' \<longrightarrow>
            fst (main_repo [flag] w) = Inr () \<and>
            fst (main [flag] w) = Exit 0 \<and>
            slug_file (snd (main [flag] w))
              = Some (newline_on_write (os_linesep w) (''/'' @ author @ ''/'' @ name))) \<and>
         (lower accept \<noteq> ''y'' \<and> lower accept \<noteq> ''yes'' \<longrightarrow>
            fst (main_repo [flag] w) = Inl (RuntimeError ''Operation aborted by user.'') \<and>
            fst (main [flag] w) = Exit 1 \<and>
            slug_file (snd (main [flag] w)) = slug_file w \<and>
            config_dir_exists (snd (main [flag] w)) = config_dir_exists w)"
proof (intro conjI impI)
  assume "lower accept = ''y'' \<or> lower accept = ''yes''"
  then have a: "lower accept \<in> set [''y'', ''yes'']" by auto
  show "fst (main_repo [flag] w) = Inr ()"
    by (simp add: main_repo_accepted [OF assms(2,3) a])
  show "fst (main [flag] w) = Exit 0"
    by (simp add: main_repo_flag [OF assms(1)] main_repo_accepted [OF assms(2,3) a])
  show "slug_file (snd (main [flag] w))
          = Some (newline_on_write (os_linesep w) (''/'' @ author @ ''/'' @ name))"
    by (simp add: main_repo_flag [OF assms(1)] main_repo_accepted [OF assms(2,3) a])
next
  assume "lower accept \<noteq> ''y'' \<and> lower accept \<noteq> ''yes''"
  then have a: "lower accept \<notin> set [''y'', ''yes'']" by auto
  show "fst (main_repo [flag] w) = Inl (RuntimeError ''Operation aborted by user.'')"
    by (simp add: main_repo_declined [OF assms(2,3) a])
  show "fst (main [flag] w) = Exit 1"
    by (simp add: main_repo_flag [OF assms(1)] main_repo_declined [OF assms(2,3) a])
  show "slug_file (snd (main [flag] w)) = slug_file w"
    by (simp add: main_repo_flag [OF assms(1)] main_repo_declined [OF assms(2,3) a] print_def)
  show "config_dir_exists (snd (main [flag] w)) = config_dir_exists w"
    by (simp add: main_repo_flag [OF assms(1)] main_repo_declined [OF assms(2,3) a] print_def)
qed

theorem confirmation_is_case_insensitive_witness:
  "''-r'' \<in> set [''-r'', ''--repo'', ''-R''] \<and>
   re_match_github_url (strip ''https://github.com/x/y'') = Some (''x'', ''y'') \<and>
   lower ''YES'' = ''yes'' \<and>
   fst (main [''-r''] (example_world\<lparr>stdin := [''https://github.com/x/y'', ''YES'']\<rparr>))
     = Exit 0 \<and>
   slug_file (snd (main [''-r''] (example_world\<lparr>stdin := [''https://github.com/x/y'', ''YES'']\<rparr>)))
     = Some ''/x/y'' \<and>
   lower '' y'' \<noteq> ''y'' \<and> lower '' y'' \<noteq> ''yes'' \<and>
   fst (main [''-r''] (example_world\<lparr>stdin := [''https://github.com/x/y'', '' y'']\<rparr>))
     = Exit 1 \<and>
   slug_file (snd (main [''-r''] (example_world\<lparr>stdin := [''https://github.com/x/y'', '' y'']\<rparr>)))
     = Some ''/octocat/hello-world''"
proof -
  let ?w1 = "example_world\<lparr>stdin := [''https://github.com/x/y'', ''YES'']\<rparr>"
  let ?w2 = "example_world\<lparr>stdin := [''https://github.com/x/y'', '' y'']\<rparr>"
  have f: "''-r'' \<in> set [''-r'', ''--repo'', ''-R'']" by simp
  have i1: "stdin ?w1 = [''https://github.com/x/y'', ''YES'']" by simp
  have i2: "stdin ?w2 = [''https://github.com/x/y'', '' y'']" by simp
  have m: "re_match_github_url (strip ''https://github.com/x/y'') = Some (''x'', ''y'')"
    by (simp add: strip_def isspace_def re_match_github_url_def)
  have l: "os_linesep ?w1 = [CHR 0x0A]" by (simp add: os_linesep_def example_world_def)
  from f m confirmation_is_case_insensitive [OF f i1 m]
       confirmation_is_case_insensitive [OF f i2 m]
  show ?thesis
    by (simp add: example_answers example_world_fields l newline_on_write_def)
qed

subsection \<open>The URL pattern, read as a language\<close>

text \<open>
  The matcher accepts exactly the strings of the regular expression, with the groups
  the regular expression binds: \<^verbatim>\<open>https://\<close>, an optional \<^verbatim>\<open>www.\<close>, \<^verbatim>\<open>github\<close>, any one
  character but a newline, \<^verbatim>\<open>com/\<close>, a non-empty group without \<^verbatim>\<open>/\<close>, a \<^verbatim>\<open>/\<close>, and a
  second non-empty group without \<^verbatim>\<open>/\<close> up to the end.
\<close>

lemma strip_prefix_Some_iff: "strip_prefix p s = Some r \<longleftrightarrow> s = p @ r"
  by (induction p s rule: strip_prefix.induct) auto

lemma strip_prefix_append: "strip_prefix p (p @ r) = Some r"
  by (simp add: strip_prefix_Some_iff)

lemma split_at_slash:
  assumes "CHR ''/'' \<notin> set a"
  shows "takeWhile (\<lambda>x. x \<noteq> CHR ''/'') (a @ CHR ''/'' # n) = a"
    and "dropWhile (\<lambda>x. x \<noteq> CHR ''/'') (a @ CHR ''/'' # n) = CHR ''/'' # n"
  using assms by (induction a) auto

lemma re_match_github_url_sound:
  assumes "re_match_github_url url = Some (author, name)"
  shows "\<exists>www c. url = ''https://'' @ www @ ''github'' @ [c] @ ''com/'' @ author @ ''/'' @ name \<and>
           (www = [] \<or> www = ''www.'') \<and> c \<noteq> CHR 0x0A \<and>
           author \<noteq> [] \<and> CHR ''/'' \<notin> set author \<and> name \<noteq> [] \<and> CHR ''/'' \<notin> set name"
proof -
  from assms obtain r0 where r0: "strip_prefix ''https://'' url = Some r0"
    by (auto simp: re_match_github_url_def split: option.splits)
  define r1 where "r1 = (case strip_prefix ''www.'' r0 of Some r \<Rightarrow> r | None \<Rightarrow> r0)"
  from assms r0 obtain c r3 where r2: "strip_prefix ''github'' r1 = Some (c # r3)"
    by (auto simp: re_match_github_url_def r1_def split: option.splits list.splits)
  from assms r0 r2 have c: "c \<noteq> CHR 0x0A"
    by (auto simp: re_match_github_url_def r1_def split: option.splits list.splits if_splits)
  from assms r0 r2 c obtain r4 where r4: "strip_prefix ''com/'' r3 = Some r4"
    by (auto simp: re_match_github_url_def r1_def split: option.splits list.splits if_splits)
  from assms r0 r2 c r4 obtain slash where
    a: "author = takeWhile (\<lambda>x. x \<noteq> CHR ''/'') r4" "author \<noteq> []" and
    n: "dropWhile (\<lambda>x. x \<noteq> CHR ''/'') r4 = slash # name" "name \<noteq> []" "CHR ''/'' \<notin> set name"
    by (auto simp: re_match_github_url_def r1_def Let_def
             split: option.splits list.splits if_splits)
  have "dropWhile (\<lambda>x. x \<noteq> CHR ''/'') r4 \<noteq> []" using n(1) by simp
  then have "\<not> hd (dropWhile (\<lambda>x. x \<noteq> CHR ''/'') r4) \<noteq> CHR ''/''"
    by (rule hd_dropWhile)
  with n(1) have s: "slash = CHR ''/''" by simp
  have r4': "r4 = author @ ''/'' @ name"
    using takeWhile_dropWhile_id [of "\<lambda>x. x \<noteq> CHR ''/''" r4] a(1) n(1) s by simp
  have an: "CHR ''/'' \<notin> set author"
    using a(1) by (auto dest: set_takeWhileD)
  have "\<exists>www. r0 = www @ r1 \<and> (www = [] \<or> www = ''www.'')"
    by (cases "strip_prefix ''www.'' r0") (auto simp: r1_def strip_prefix_Some_iff)
  then obtain www where w: "r0 = www @ r1" "www = [] \<or> www = ''www.''" by blast
  have "url = ''https://'' @ www @ ''github'' @ [c] @ ''com/'' @ author @ ''/'' @ name"
    using r0 r2 r4 w(1) r4' by (simp add: strip_prefix_Some_iff)
  with w(2) c a(2) an n(2,3) show ?thesis by blast
qed

lemma re_match_github_url_complete:
  assumes "www = [] \<or> www = ''www.''" and "c \<noteq> CHR 0x0A"
    and "author \<noteq> []" and "CHR ''/'' \<notin> set author" and "name \<noteq> []" and "CHR ''/'' \<notin> set name"
  shows "re_match_github_url
           (''https://'' @ www @ ''github'' @ [c] @ ''com/'' @ author @ ''/'' @ name)
         = Some (author, name)"
  using assms(1)
proof
  assume "www = []"
  with assms(2-) show ?thesis
    by (simp add: re_match_github_url_def split_at_slash)
next
  assume "www = ''www.''"
  with assms(2-) show ?thesis
    by (simp add: re_match_github_url_def split_at_slash)
qed

lemma re_match_github_url_iff:
  "re_match_github_url url = Some (author, name) \<longleftrightarrow>
     (\<exists>www c. url = ''https://'' @ www @ ''github'' @ [c] @ ''com/'' @ author @ ''/'' @ name \<and>
        (www = [] \<or> www = ''www.'') \<and> c \<noteq> CHR 0x0A \<and>
        author \<noteq> [] \<and> CHR ''/'' \<notin> set author \<and> name \<noteq> [] \<and> CHR ''/'' \<notin> set name)"
  (is "?lhs \<longleftrightarrow> ?rhs")
proof
  assume ?lhs
  then show ?rhs by (rule re_match_github_url_sound)
next
  assume ?rhs
  then obtain www c where
    u: "url = ''https://'' @ www @ ''github'' @ [c] @ ''com/'' @ author @ ''/'' @ name" and
    h: "www = [] \<or> www = ''www.''" "c \<noteq> CHR 0x0A" "author \<noteq> []" "CHR ''/'' \<notin> set author"
       "name \<noteq> []" "CHR ''/'' \<notin> set name"
    by blast
  show ?lhs unfolding u by (rule re_match_github_url_complete [OF h])
qed

end
